theory Spec2Isabelle
  imports Main "HOL-Library.Word"
begin

section \<open>Bytes, text encodings and base64url\<close>

text \<open>
  A Python \<open>bytes\<close> value is a list of 8-bit words. A Python \<open>str\<close> is a list of
  characters; a \<^typ>\<open>char\<close> stands for the code point of the same number, so the
  strings of this development range over the code points below 256.
\<close>

type_synonym byte = "8 word"

text \<open>\<open>str.encode('utf-8')\<close>: one byte below 128, two bytes from 128 to 255.\<close>

definition utf8_char :: "char \<Rightarrow> byte list" where
  "utf8_char c =
     (let n = (of_char c :: nat) in
      if n < 128 then [of_nat n] else [of_nat (192 + n div 64), of_nat (128 + n mod 64)])"

definition utf8_encode :: "string \<Rightarrow> byte list" where
  "utf8_encode s = concat (map utf8_char s)"

text \<open>
  The base64 alphabet of \<open>base64.urlsafe_b64encode\<close>: \<open>A-Z\<close>, \<open>a-z\<close>, \<open>0-9\<close>,
  then \<open>-\<close> and \<open>_\<close> in place of \<open>+\<close> and \<open>/\<close>.
\<close>

definition b64_char :: "nat \<Rightarrow> char" where
  "b64_char n =
    (if n < 26 then char_of (65 + n)
     else if n < 52 then char_of (71 + n)
     else if n < 62 then char_of (n - 4)
     else if n = 62 then CHR ''-'' else CHR ''_'')"

text \<open>
  \<open>base64.urlsafe_b64encode(data).decode('utf-8')\<close>: three bytes give four characters,
  and a last group of one or two bytes is padded with \<open>=\<close> to four characters.
\<close>

fun urlsafe_b64encode :: "byte list \<Rightarrow> string" where
  "urlsafe_b64encode (a # b # c # rest) =
     [b64_char (unat a div 4), b64_char (unat a mod 4 * 16 + unat b div 16),
      b64_char (unat b mod 16 * 4 + unat c div 64), b64_char (unat c mod 64)]
     @ urlsafe_b64encode rest"
| "urlsafe_b64encode [a, b] =
     [b64_char (unat a div 4), b64_char (unat a mod 4 * 16 + unat b div 16),
      b64_char (unat b mod 16 * 4), CHR ''='']"
| "urlsafe_b64encode [a] =
     [b64_char (unat a div 4), b64_char (unat a mod 4 * 16), CHR ''='', CHR ''='']"
| "urlsafe_b64encode [] = []"

text \<open>\<open>s.rstrip(c)\<close> for a one-character argument.\<close>

definition rstrip :: "char \<Rightarrow> string \<Rightarrow> string" where
  "rstrip c s = rev (dropWhile (\<lambda>x. x = c) (rev s))"

text \<open>The argument of \<open>encode_b64\<close> is a \<open>str\<close> or a \<open>bytes\<close> value.\<close>

datatype pydata = Str string | Bytes "byte list"

fun encode_b64 :: "pydata \<Rightarrow> string" where
  "encode_b64 (Str s) = rstrip CHR ''='' (urlsafe_b64encode (utf8_encode s))"
| "encode_b64 (Bytes b) = rstrip CHR ''='' (urlsafe_b64encode b)"

subsection \<open>Decoding, as the reader of an encoded field does it\<close>

definition b64_val :: "char \<Rightarrow> nat option" where
  "b64_val c =
     (let n = (of_char c :: nat) in
      if 65 \<le> n \<and> n \<le> 90 then Some (n - 65)
      else if 97 \<le> n \<and> n \<le> 122 then Some (n - 71)
      else if 48 \<le> n \<and> n \<le> 57 then Some (n + 4)
      else if c = CHR ''-'' then Some 62
      else if c = CHR ''_'' then Some 63
      else None)"

text \<open>Restoring the padding: \<open>s + "=" * (-len(s) % 4)\<close>.\<close>

definition restore_padding :: "string \<Rightarrow> string" where
  "restore_padding s = s @ replicate ((4 - length s mod 4) mod 4) CHR ''=''"

fun b64url_decode :: "string \<Rightarrow> byte list option" where
  "b64url_decode (c0 # c1 # c2 # c3 # rest) =
     (case (b64_val c0, b64_val c1) of
        (Some s0, Some s1) \<Rightarrow>
          (if rest = [] \<and> c3 = CHR ''='' \<and> c2 = CHR ''='' then
             Some [of_nat (s0 * 4 + s1 div 16)]
           else
             (case b64_val c2 of
                None \<Rightarrow> None
              | Some s2 \<Rightarrow>
                  (if rest = [] \<and> c3 = CHR ''='' then
                     Some [of_nat (s0 * 4 + s1 div 16), of_nat (s1 mod 16 * 16 + s2 div 4)]
                   else
                     (case b64_val c3 of
                        None \<Rightarrow> None
                      | Some s3 \<Rightarrow>
                          (case b64url_decode rest of
                             None \<Rightarrow> None
                           | Some bs \<Rightarrow>
                               Some ([of_nat (s0 * 4 + s1 div 16),
                                      of_nat (s1 mod 16 * 16 + s2 div 4),
                                      of_nat (s2 mod 4 * 64 + s3)] @ bs))))))
      | _ \<Rightarrow> None)"
| "b64url_decode [] = Some []"
| "b64url_decode _ = None"

text \<open>The encoding without its padding, the form in which \<open>encode_b64\<close> is analysed.\<close>

fun b64_unpadded :: "byte list \<Rightarrow> string" where
  "b64_unpadded (a # b # c # rest) =
     [b64_char (unat a div 4), b64_char (unat a mod 4 * 16 + unat b div 16),
      b64_char (unat b mod 16 * 4 + unat c div 64), b64_char (unat c mod 64)]
     @ b64_unpadded rest"
| "b64_unpadded [a, b] =
     [b64_char (unat a div 4), b64_char (unat a mod 4 * 16 + unat b div 16),
      b64_char (unat b mod 16 * 4)]"
| "b64_unpadded [a] =
     [b64_char (unat a div 4), b64_char (unat a mod 4 * 16)]"
| "b64_unpadded [] = []"

section \<open>JSON values and their serialisation\<close>

text \<open>
  The values that \<open>json.dumps\<close> writes and \<open>Response.json()\<close> reads. A \<open>dict\<close> is an
  association list in insertion order; Python's \<open>None\<close>, \<open>True\<close> and \<open>False\<close> are
  \<open>JNull\<close> and \<open>JBool\<close>.
\<close>

datatype json = JNull | JBool bool | JNum int | JStr string | JArr "json list"
  | JObj "(string \<times> json) list"

definition hex_digit :: "nat \<Rightarrow> char" where
  "hex_digit n = (if n < 10 then char_of (48 + n) else char_of (87 + n))"

text \<open>
  The string escapes of \<open>json.dumps\<close> with \<open>ensure_ascii\<close> (its default): the backslash,
  the double quote and the named control characters, and \<open>\uXXXX\<close> for every other
  character outside the range from the space to the tilde.
\<close>

definition escape_char :: "char \<Rightarrow> string" where
  "escape_char c =
     (let n = (of_char c :: nat) in
      if c = CHR 0x5C then [CHR 0x5C, CHR 0x5C]
      else if c = CHR 0x22 then [CHR 0x5C, CHR 0x22]
      else if c = CHR 0x08 then [CHR 0x5C, CHR ''b'']
      else if c = CHR 0x0C then [CHR 0x5C, CHR ''f'']
      else if c = CHR 0x0A then [CHR 0x5C, CHR ''n'']
      else if c = CHR 0x0D then [CHR 0x5C, CHR ''r'']
      else if c = CHR 0x09 then [CHR 0x5C, CHR ''t'']
      else if n < 32 \<or> 126 < n then
        [CHR 0x5C, CHR ''u'', CHR ''0'', CHR ''0'', hex_digit (n div 16), hex_digit (n mod 16)]
      else [c])"

definition encode_basestring_ascii :: "string \<Rightarrow> string" where
  "encode_basestring_ascii s = [CHR 0x22] @ concat (map escape_char s) @ [CHR 0x22]"

fun str_join :: "string \<Rightarrow> string list \<Rightarrow> string" where
  "str_join sep [] = []"
| "str_join sep [x] = x"
| "str_join sep (x # y # ys) = x @ sep @ str_join sep (y # ys)"

function str_nat :: "nat \<Rightarrow> string" where
  "str_nat n =
     (if n < 10 then [char_of (48 + n)] else str_nat (n div 10) @ [char_of (48 + n mod 10)])"
  by pat_completeness auto
termination
  by (relation "measure id") auto

definition str_int :: "int \<Rightarrow> string" where
  "str_int i = (if i < 0 then CHR ''-'' # str_nat (nat (- i)) else str_nat (nat i))"

text \<open>\<open>json.dumps(obj, separators=(isep, ksep))\<close>.\<close>

fun json_dumps :: "string \<Rightarrow> string \<Rightarrow> json \<Rightarrow> string"
  and dumps_items :: "string \<Rightarrow> string \<Rightarrow> json list \<Rightarrow> string list"
  and dumps_members :: "string \<Rightarrow> string \<Rightarrow> (string \<times> json) list \<Rightarrow> string list" where
  "json_dumps isep ksep JNull = ''null''"
| "json_dumps isep ksep (JBool b) = (if b then ''true'' else ''false'')"
| "json_dumps isep ksep (JNum i) = str_int i"
| "json_dumps isep ksep (JStr s) = encode_basestring_ascii s"
| "json_dumps isep ksep (JArr xs) = ''['' @ str_join isep (dumps_items isep ksep xs) @ '']''"
| "json_dumps isep ksep (JObj kvs) = ''{'' @ str_join isep (dumps_members isep ksep kvs) @ ''}''"
| "dumps_items isep ksep [] = []"
| "dumps_items isep ksep (x # xs) = json_dumps isep ksep x # dumps_items isep ksep xs"
| "dumps_members isep ksep [] = []"
| "dumps_members isep ksep ((k, v) # kvs) =
     (encode_basestring_ascii k @ ksep @ json_dumps isep ksep v) # dumps_members isep ksep kvs"

text \<open>\<open>json.dumps(obj)\<close> has the separators \<open>", "\<close> and \<open>": "\<close>.\<close>

definition dumps :: "json \<Rightarrow> string" where
  "dumps obj = json_dumps '', '' '': '' obj"

subsection \<open>Exceptions and the Python operations that raise them\<close>

datatype error = KeyError string | TypeError | JSONDecodeError | UnicodeEncodeError | Unmodelled

text \<open>\<open>obj[k]\<close> for a string \<open>k\<close>: only a \<open>dict\<close> has string subscripts.\<close>

fun getitem :: "json \<Rightarrow> string \<Rightarrow> error + json" where
  "getitem (JObj kvs) k = (case map_of kvs k of None \<Rightarrow> Inl (KeyError k) | Some v \<Rightarrow> Inr v)"
| "getitem _ k = Inl TypeError"

text \<open>\<open>for x in obj\<close>: a list gives its items, a \<open>dict\<close> its keys, a \<open>str\<close> its characters.\<close>

fun iter_json :: "json \<Rightarrow> error + json list" where
  "iter_json (JArr xs) = Inr xs"
| "iter_json (JObj kvs) = Inr (map (\<lambda>kv. JStr (fst kv)) kvs)"
| "iter_json (JStr s) = Inr (map (\<lambda>c. JStr [c]) s)"
| "iter_json _ = Inl TypeError"

text \<open>Python's truth value, as \<open>not obj\<close> and \<open>if obj\<close> take it.\<close>

fun truthy :: "json \<Rightarrow> bool" where
  "truthy JNull = False"
| "truthy (JBool b) = b"
| "truthy (JNum i) = (i \<noteq> 0)"
| "truthy (JStr s) = (s \<noteq> [])"
| "truthy (JArr xs) = (xs \<noteq> [])"
| "truthy (JObj kvs) = (kvs \<noteq> [])"

text \<open>\<open>str.encode(s, encoding="ascii")\<close> raises on a character above 127.\<close>

definition ascii_encode :: "string \<Rightarrow> error + byte list" where
  "ascii_encode s =
     (if list_all (\<lambda>c. (of_char c :: nat) < 128) s then Inr (map (\<lambda>c. of_nat (of_char c)) s)
      else Inl UnicodeEncodeError)"

fun opt_json :: "string option \<Rightarrow> json" where
  "opt_json None = JNull"
| "opt_json (Some s) = JStr s"

section \<open>The ACME client\<close>

subsection \<open>Keys, hashing and signing\<close>

text \<open>
  The public point of the account key, \<open>self.key.pointQ\<close>. \<open>Integer.to_bytes()\<close> without
  a block size gives the big-endian bytes of minimal length, one zero byte for zero.
\<close>

record ecc_key =
  pointQ_x :: nat
  pointQ_y :: nat

function to_bytes :: "nat \<Rightarrow> byte list" where
  "to_bytes n = (if n < 256 then [of_nat n] else to_bytes (n div 256) @ [of_nat (n mod 256)])"
  by pat_completeness auto
termination
  by (relation "measure id") auto

text \<open>The number that a big-endian byte string denotes.\<close>

definition from_bytes :: "byte list \<Rightarrow> nat" where
  "from_bytes bs = foldl (\<lambda>acc b. acc * 256 + unat b) 0 bs"

text \<open>
  The library functions behind \<open>SHA256.new(data)\<close> and \<open>self.signing_alg.sign(hash)\<close> are
  parameters: \<open>sha256\<close> maps a message to its digest, and \<open>dss_sign n d\<close> is the signature
  of the digest \<open>d\<close> made by the \<open>n\<close>-th call of the signer, whose output need not be the
  same from call to call.
\<close>

record crypto =
  sha256 :: "byte list \<Rightarrow> byte list"
  dss_sign :: "nat \<Rightarrow> byte list \<Rightarrow> byte list"

subsection \<open>HTTP responses and the state of the client\<close>

text \<open>
  A response as the client reads it: the status code, the headers (looked up by name),
  and the result of \<open>.json()\<close>, which is \<open>None\<close> where the body is not JSON and the call
  raises.
\<close>

record response =
  status_code :: nat
  headers :: "string \<Rightarrow> string option"
  json_body :: "json option"

text \<open>
  The fields of \<open>ACMEClient\<close> and what it acts on. Each of the two sessions answers its
  requests with the responses of a fixed sequence, in order; the requests made so far are
  recorded, and so are the messages signed, the seconds slept, the TXT records added to
  the DNS zone and the HTTP challenges registered.
\<close>

record client =
  revokeCert_url :: "string option"
  newNonce_url :: "string option"
  newAccount_url :: "string option"
  newOrder_url :: "string option"
  account_kid :: "string option"
  key :: ecc_key
  nextNonce :: "string option"
  client_session :: "nat \<Rightarrow> response"
  client_requests :: "string list"
  jose_session :: "nat \<Rightarrow> response"
  jose_requests :: "(string \<times> json) list"
  signed :: "byte list list"
  slept :: nat
  zone_TXT :: "(string \<times> string) list"
  http_challenges :: "(string \<times> string) list"

text \<open>\<open>self.client_session.get(url)\<close> and \<open>self.jose_session.post(url, json=body)\<close>.\<close>

definition session_get :: "string \<Rightarrow> client \<Rightarrow> response \<times> client" where
  "session_get url st =
     (client_session st (length (client_requests st)),
      st\<lparr>client_requests := client_requests st @ [url]\<rparr>)"

definition session_post :: "string \<Rightarrow> json \<Rightarrow> client \<Rightarrow> response \<times> client" where
  "session_post url body st =
     (jose_session st (length (jose_requests st)),
      st\<lparr>jose_requests := jose_requests st @ [(url, body)]\<rparr>)"

text \<open>The success and failure states of the two polls, set in \<open>__init__\<close>.\<close>

definition starting_success_states :: "string list" where
  "starting_success_states = [''ready'', ''processing'', ''valid'']"

definition starting_failure_states :: "string list" where
  "starting_failure_states = [''invalid'']"

definition final_success_states :: "string list" where
  "final_success_states = [''valid'']"

definition final_failure_states :: "string list" where
  "final_failure_states = [''ready'', ''invalid'', ''pending'']"

subsection \<open>The JWK, the nonce and the key authorization\<close>

definition create_jwk_object :: "client \<Rightarrow> json" where
  "create_jwk_object st =
     JObj [(''crv'', JStr ''P-256''),
           (''kid'', JStr ''1''),
           (''kty'', JStr ''EC''),
           (''x'', JStr (encode_b64 (Bytes (to_bytes (pointQ_x (key st)))))),
           (''y'', JStr (encode_b64 (Bytes (to_bytes (pointQ_y (key st))))))]"

definition get_nonce :: "client \<Rightarrow> (error + string option) \<times> client" where
  "get_nonce st =
     (case newNonce_url st of
        None \<Rightarrow> (Inr None, st)
      | Some url \<Rightarrow>
          (let (request, st1) = session_get url st in
           if status_code request = 200 \<or> status_code request = 204 then
             (case headers request ''Replay-Nonce'' of
                None \<Rightarrow> (Inl (KeyError ''Replay-Nonce''), st1)
              | Some nonce \<Rightarrow> (Inr (Some nonce), st1\<lparr>nextNonce := Some nonce\<rparr>))
           else (Inr None, st1)))"

definition create_key_authorization :: "crypto \<Rightarrow> client \<Rightarrow> string \<Rightarrow> string" where
  "create_key_authorization cr st token =
     (let key_obj = JObj [(''crv'', JStr ''P-256''),
                          (''kty'', JStr ''EC''),
                          (''x'', JStr (encode_b64 (Bytes (to_bytes (pointQ_x (key st)))))),
                          (''y'', JStr (encode_b64 (Bytes (to_bytes (pointQ_y (key st))))))];
          hash_val = encode_b64 (Bytes (sha256 cr (utf8_encode (json_dumps '','' '':'' key_obj))));
          key_auth = token @ ''.'' @ hash_val
      in key_auth)"

subsection \<open>The two envelope builders\<close>

definition create_jose_jwk ::
  "crypto \<Rightarrow> string \<Rightarrow> json \<Rightarrow> client \<Rightarrow> (error + json) \<times> client" where
  "create_jose_jwk cr url payload st =
     (case get_nonce st of
        (Inl e, st1) \<Rightarrow> (Inl e, st1)
      | (Inr nonce, st1) \<Rightarrow>
          (let protected = JObj [(''alg'', JStr ''ES256''),
                                 (''jwk'', create_jwk_object st1),
                                 (''nonce'', opt_json nonce),
                                 (''url'', JStr url)];
               encoded_header = encode_b64 (Str (dumps protected));
               encoded_payload = encode_b64 (Str (dumps payload))
           in case ascii_encode (encoded_header @ ''.'' @ encoded_payload) of
                Inl e \<Rightarrow> (Inl e, st1)
              | Inr message \<Rightarrow>
                  (let signature = dss_sign cr (length (signed st1)) (sha256 cr message);
                       jose_object = JObj [(''protected'', JStr encoded_header),
                                           (''payload'', JStr encoded_payload),
                                           (''signature'', JStr (encode_b64 (Bytes signature)))]
                   in (Inr jose_object, st1\<lparr>signed := signed st1 @ [message]\<rparr>))))"

definition create_jose_kid ::
  "crypto \<Rightarrow> string \<Rightarrow> json \<Rightarrow> client \<Rightarrow> (error + json) \<times> client" where
  "create_jose_kid cr url payload st =
     (case get_nonce st of
        (Inl e, st1) \<Rightarrow> (Inl e, st1)
      | (Inr nonce, st1) \<Rightarrow>
          (let protected = JObj [(''alg'', JStr ''ES256''),
                                 (''kid'', opt_json (account_kid st1)),
                                 (''nonce'', opt_json nonce),
                                 (''url'', JStr url)];
               encoded_header = encode_b64 (Str (dumps protected));
               encoded_payload =
                 (if payload = JStr [] then [] else encode_b64 (Str (dumps payload)));
               hash_input =
                 (if payload = JStr [] then encoded_header @ ''.''
                  else encoded_header @ ''.'' @ encoded_payload)
           in case ascii_encode hash_input of
                Inl e \<Rightarrow> (Inl e, st1)
              | Inr message \<Rightarrow>
                  (let signature = dss_sign cr (length (signed st1)) (sha256 cr message);
                       kid_jose_object = JObj [(''protected'', JStr encoded_header),
                                               (''payload'', JStr encoded_payload),
                                               (''signature'', JStr (encode_b64 (Bytes signature)))]
                   in (Inr kid_jose_object, st1\<lparr>signed := signed st1 @ [message]\<rparr>))))"

subsection \<open>Authorizing: the challenge of the requested scheme\<close>

text \<open>
  The loop of \<open>authorize_certificate\<close> over the challenges of the authorization
  \<open>jose_request_object\<close>. A token or an identifier value that is not a JSON string is
  outside this model (\<open>Unmodelled\<close>): Python would format it with \<open>str()\<close>.
\<close>

fun authorize_challenges ::
  "crypto \<Rightarrow> string \<Rightarrow> json \<Rightarrow> json list \<Rightarrow> client \<Rightarrow> (error + json option) \<times> client" where
  "authorize_challenges cr auth_scheme jose_request_object [] st = (Inr None, st)"
| "authorize_challenges cr auth_scheme jose_request_object (challenge # rest) st =
     (case getitem challenge ''token'' of
        Inl e \<Rightarrow> (Inl e, st)
      | Inr (JStr token) \<Rightarrow>
          (let key_auth = create_key_authorization cr st token in
           if auth_scheme = ''dns01'' then
             (case getitem challenge ''type'' of
                Inl e \<Rightarrow> (Inl e, st)
              | Inr ty \<Rightarrow>
                  if ty = JStr ''dns-01'' then
                    (case ascii_encode key_auth of
                       Inl e \<Rightarrow> (Inl e, st)
                     | Inr key_auth_bytes \<Rightarrow>
                         (let key_auth_hash = encode_b64 (Bytes (sha256 cr key_auth_bytes)) in
                          case getitem jose_request_object ''identifier'' of
                            Inl e \<Rightarrow> (Inl e, st)
                          | Inr identifier \<Rightarrow>
                              (case getitem identifier ''value'' of
                                 Inl e \<Rightarrow> (Inl e, st)
                               | Inr (JStr domain) \<Rightarrow>
                                   (Inr (Some challenge),
                                    st\<lparr>zone_TXT := zone_TXT st @
                                      [(''_acme-challenge.'' @ domain, key_auth_hash)]\<rparr>)
                               | Inr _ \<Rightarrow> (Inl Unmodelled, st))))
                  else authorize_challenges cr auth_scheme jose_request_object rest st)
           else if auth_scheme = ''http01'' then
             (case getitem challenge ''type'' of
                Inl e \<Rightarrow> (Inl e, st)
              | Inr ty \<Rightarrow>
                  if ty = JStr ''http-01'' then
                    (Inr (Some challenge),
                     st\<lparr>http_challenges := http_challenges st @ [(token, key_auth)]\<rparr>)
                  else authorize_challenges cr auth_scheme jose_request_object rest st)
           else authorize_challenges cr auth_scheme jose_request_object rest st)
      | Inr _ \<Rightarrow> (Inl Unmodelled, st))"

definition authorize_certificate ::
  "crypto \<Rightarrow> string \<Rightarrow> string \<Rightarrow> client \<Rightarrow> (error + json option) \<times> client" where
  "authorize_certificate cr auth_url auth_scheme st =
     (case create_jose_kid cr auth_url (JStr []) st of
        (Inl e, st1) \<Rightarrow> (Inl e, st1)
      | (Inr jose_payload, st1) \<Rightarrow>
          (let (request, st2) = session_post auth_url jose_payload st1 in
           if status_code request = 200 then
             (case json_body request of
                None \<Rightarrow> (Inl JSONDecodeError, st2)
              | Some jose_request_object \<Rightarrow>
                  (case getitem jose_request_object ''challenges'' of
                     Inl e \<Rightarrow> (Inl e, st2)
                   | Inr challenges \<Rightarrow>
                       (case iter_json challenges of
                          Inl e \<Rightarrow> (Inl e, st2)
                        | Inr cs \<Rightarrow>
                            authorize_challenges cr auth_scheme jose_request_object cs st2)))
           else (Inr None, st2)))"

subsection \<open>Polling and finalizing\<close>

text \<open>
  \<open>poll_resource_status\<close> is a \<open>while True\<close> loop: the value \<open>None\<close> of the model is the
  loop that never leaves. Python's \<open>False\<close> is \<open>JBool False\<close>. \<open>x in states\<close> compares a
  JSON value with the strings of the list.
\<close>

partial_function (option) poll_resource_status ::
  "crypto \<Rightarrow> string \<Rightarrow> string list \<Rightarrow> string list \<Rightarrow> client \<Rightarrow> ((error + json) \<times> client) option"
where
  "poll_resource_status cr order_url success_states failure_states st =
     (case create_jose_kid cr order_url (JStr []) st of
        (Inl e, st1) \<Rightarrow> Some (Inl e, st1)
      | (Inr jose_payload, st1) \<Rightarrow>
          (case session_post order_url jose_payload st1 of
             (jose_request, st2) \<Rightarrow>
               (case json_body jose_request of
                  None \<Rightarrow> Some (Inl JSONDecodeError, st2)
                | Some jose_request_object \<Rightarrow>
                    if status_code jose_request = 200 then
                      (case getitem jose_request_object ''status'' of
                         Inl e \<Rightarrow> Some (Inl e, st2)
                       | Inr status \<Rightarrow>
                           if status \<in> set (map JStr success_states) then
                             Some (Inr jose_request_object, st2)
                           else if status \<in> set (map JStr failure_states) then
                             Some (Inr (JBool False), st2)
                           else poll_resource_status cr order_url success_states failure_states
                                  (st2\<lparr>slept := slept st2 + 1\<rparr>))
                    else poll_resource_status cr order_url success_states failure_states
                           (st2\<lparr>slept := slept st2 + 1\<rparr>))))"

definition finalize_certificate ::
  "crypto \<Rightarrow> string \<Rightarrow> string \<Rightarrow> byte list \<Rightarrow> client \<Rightarrow> ((error + json option) \<times> client) option"
where
  "finalize_certificate cr order_url finalize_url der st =
     (case poll_resource_status cr order_url starting_success_states starting_failure_states st of
        None \<Rightarrow> None
      | Some (Inl e, st1) \<Rightarrow> Some (Inl e, st1)
      | Some (Inr jose_request_object, st1) \<Rightarrow>
          if \<not> truthy jose_request_object then Some (Inr (Some (JBool False)), st1)
          else
            (let payload = JObj [(''csr'', JStr (encode_b64 (Bytes der)))] in
             case create_jose_kid cr finalize_url payload st1 of
               (Inl e, st2) \<Rightarrow> Some (Inl e, st2)
             | (Inr jose_payload, st2) \<Rightarrow>
                 (let (response, st3) = session_post finalize_url jose_payload st2 in
                  if status_code response = 200 then
                    (case poll_resource_status cr order_url final_success_states
                            final_failure_states st3 of
                       None \<Rightarrow> None
                     | Some (Inl e, st4) \<Rightarrow> Some (Inl e, st4)
                     | Some (Inr final_object, st4) \<Rightarrow>
                         if truthy final_object then
                           (case getitem final_object ''certificate'' of
                              Inl e \<Rightarrow> Some (Inl e, st4)
                            | Inr certificate \<Rightarrow> Some (Inr (Some certificate), st4))
                         else Some (Inr (Some (JBool False)), st4))
                  else Some (Inr None, st3))))"

subsection \<open>The member names of an object\<close>

fun keys :: "json \<Rightarrow> string list" where
  "keys (JObj kvs) = map fst kvs"
| "keys _ = []"

section \<open>A concrete client\<close>

text \<open>
  An account key whose public point is the base point of P-256, stand-ins for the digest
  and the signer, and a certificate authority that answers every nonce request with
  status 204 and a nonce, and the polls of an order with \<open>pending\<close>, \<open>pending\<close>, then
  \<open>valid\<close>.
\<close>

definition example_key :: ecc_key where
  "example_key =
     \<lparr>pointQ_x = 0x6B17D1F2E12C4247F8BCE6E563A440F277037D812DEB33A0F4A13945D898C296,
      pointQ_y = 0x4FE342E2FE1A7F9B8EE7EB4A7C0F9E162BCE33576B315ECECBB6406837BF51F5\<rparr>"

definition example_crypto :: crypto where
  "example_crypto = \<lparr>sha256 = (\<lambda>m. [of_nat (length m)]), dss_sign = (\<lambda>n d. of_nat n # d)\<rparr>"

definition nonce_response :: response where
  "nonce_response =
     \<lparr>status_code = 204,
      headers = (\<lambda>k. if k = ''Replay-Nonce'' then Some ''nonce-1'' else None),
      json_body = None\<rparr>"

definition order_response :: "nat \<Rightarrow> string \<Rightarrow> response" where
  "order_response code status =
     \<lparr>status_code = code,
      headers = (\<lambda>k. None),
      json_body = Some (JObj [(''status'', JStr status),
                              (''certificate'', JStr ''https://ca/cert/1'')])\<rparr>"

definition example_client :: client where
  "example_client =
     \<lparr>revokeCert_url = Some ''https://ca/revoke'',
      newNonce_url = Some ''https://ca/nonce'',
      newAccount_url = Some ''https://ca/acct'',
      newOrder_url = Some ''https://ca/order'',
      account_kid = Some ''https://ca/acct/7'',
      key = example_key,
      nextNonce = None,
      client_session = (\<lambda>n. nonce_response),
      client_requests = [],
      jose_session = (\<lambda>n. if n < 2 then order_response 200 ''pending''
                             else order_response 200 ''valid''),
      jose_requests = [],
      signed = [],
      slept = 0,
      zone_TXT = [],
      http_challenges = []\<rparr>"

(*DEFS*)

section \<open>Properties of the encoding\<close>

lemma b64_val_char: "n < 64 \<Longrightarrow> b64_val (b64_char n) = Some n"
  by (auto simp: b64_val_def b64_char_def Let_def)

lemma b64_char_not_pad: "b64_char n \<noteq> CHR ''=''"
proof
  assume "b64_char n = CHR ''=''"
  then have "(of_char (b64_char n) :: nat) = of_char CHR ''=''" by simp
  then show False
    by (simp add: b64_char_def split: if_splits)
qed

lemma rstrip_append:
  "xs \<noteq> [] \<Longrightarrow> last xs \<noteq> c \<Longrightarrow> rstrip c (xs @ ys) = xs @ rstrip c ys"
proof -
  assume a: "xs \<noteq> []" "last xs \<noteq> c"
  then have "dropWhile (\<lambda>x. x = c) (rev xs) = rev xs"
    by (cases "rev xs") (auto simp: last_rev hd_rev[symmetric] dest: arg_cong[where f=hd])
  then show ?thesis using a
    by (auto simp: rstrip_def dropWhile_append)
qed

lemma rstrip_urlsafe: "rstrip CHR ''='' (urlsafe_b64encode bs) = b64_unpadded bs"
proof (induction bs rule: urlsafe_b64encode.induct)
  case (1 a b c rest)
  then show ?case by (simp add: rstrip_append[where xs="[_,_,_,_]", simplified] b64_char_not_pad)
next
  case (2 a b)
  then show ?case by (simp add: rstrip_def b64_char_not_pad)
next
  case (3 a)
  then show ?case by (simp add: rstrip_def b64_char_not_pad)
next
  case 4
  then show ?case by (simp add: rstrip_def)
qed

lemma unpadded_no_pad: "CHR ''='' \<notin> set (b64_unpadded bs)"
  by (induction bs rule: b64_unpadded.induct) (auto simp: b64_char_not_pad dest: sym)

lemma restore_padding_simps:
  "restore_padding (a # b # c # d # s) = a # b # c # d # restore_padding s"
  "restore_padding [a, b, c] = [a, b, c, CHR ''='']"
  "restore_padding [a, b] = [a, b, CHR ''='', CHR ''='']"
  "restore_padding [] = []"
  by (simp_all add: restore_padding_def numeral_2_eq_2)

lemma restore_unpadded: "restore_padding (b64_unpadded bs) = urlsafe_b64encode bs"
  by (induction bs rule: b64_unpadded.induct) (simp_all add: restore_padding_simps)

lemma group_div: "q < n \<Longrightarrow> (r * n + q) div n = (r::nat)"
  by simp
lemma group_mod: "q < n \<Longrightarrow> (r * n + q) mod n = (q::nat)"
  by simp
lemma group_less: "r < m \<Longrightarrow> q < n \<Longrightarrow> r * n + q < m * (n::nat)"
proof -
  assume a: "r < m" "q < n"
  then have "Suc r \<le> m" by simp
  then have "Suc r * n \<le> m * n" by (rule mult_le_mono1)
  with a show ?thesis by simp
qed

lemma sextets:
  fixes a b c :: nat
  assumes "a < 256" "b < 256" "c < 256"
  shows "a div 4 < 64" "a mod 4 * 16 + b div 16 < 64" "b mod 16 * 4 + c div 64 < 64"
    "c mod 64 < 64" "a mod 4 * 16 < 64" "b mod 16 * 4 < 64"
    "a div 4 * 4 + (a mod 4 * 16 + b div 16) div 16 = a"
    "(a mod 4 * 16 + b div 16) mod 16 * 16 + (b mod 16 * 4 + c div 64) div 4 = b"
    "(b mod 16 * 4 + c div 64) mod 4 * 64 + c mod 64 = c"
    "a div 4 * 4 + (a mod 4 * 16) div 16 = a"
    "(a mod 4 * 16 + b div 16) mod 16 * 16 + (b mod 16 * 4) div 4 = b"
proof -
  have b16: "b div 16 < 16" and c64: "c div 64 < 4" using assms by simp_all
  have a4: "a mod 4 < 4" and b4: "b mod 16 < 16" by simp_all
  show "a div 4 < 64" using assms by simp
  show "a mod 4 * 16 + b div 16 < 64" using group_less[OF a4 b16] by simp
  show "b mod 16 * 4 + c div 64 < 64" using group_less[OF b4 c64] by simp
  show "c mod 64 < 64" by simp
  show "a mod 4 * 16 < 64" using group_less[OF a4, of 0 16] by simp
  show "b mod 16 * 4 < 64" using group_less[OF b4, of 0 4] by simp
  show "a div 4 * 4 + (a mod 4 * 16 + b div 16) div 16 = a"
    by (simp only: group_div[OF b16] div_mult_mod_eq)
  show "(a mod 4 * 16 + b div 16) mod 16 * 16 + (b mod 16 * 4 + c div 64) div 4 = b"
    by (simp only: group_mod[OF b16] group_div[OF c64] div_mult_mod_eq)
  show "(b mod 16 * 4 + c div 64) mod 4 * 64 + c mod 64 = c"
    by (simp only: group_mod[OF c64] div_mult_mod_eq)
  show "a div 4 * 4 + (a mod 4 * 16) div 16 = a"
    by simp
  show "(a mod 4 * 16 + b div 16) mod 16 * 16 + (b mod 16 * 4) div 4 = b"
    by (simp only: group_mod[OF b16] nonzero_mult_div_cancel_right div_mult_mod_eq)
qed

lemma unat_byte_less: "unat (a :: byte) < 256"
  using unsigned_less[of a] by simp

lemma decode_encode: "b64url_decode (urlsafe_b64encode bs) = Some bs"
proof (induction bs rule: urlsafe_b64encode.induct)
  case (1 a b c rest)
  note s = sextets[OF unat_byte_less[of a] unat_byte_less[of b] unat_byte_less[of c]]
  show ?case using 1
    apply (simp only: urlsafe_b64encode.simps b64url_decode.simps append.simps b64_val_char s
        prod.case option.case)
    apply (simp add: b64_char_not_pad)
    done
next
  case (2 a b)
  note s = sextets[OF unat_byte_less[of a] unat_byte_less[of b] unat_byte_less[of b]]
  show ?case
    apply (simp only: urlsafe_b64encode.simps b64url_decode.simps append.simps b64_val_char s
        prod.case option.case)
    apply (simp add: b64_char_not_pad)
    done
next
  case (3 a)
  note s = sextets[OF unat_byte_less[of a] unat_byte_less[of a] unat_byte_less[of a]]
  show ?case
    apply (simp only: urlsafe_b64encode.simps b64url_decode.simps append.simps b64_val_char s
        prod.case option.case)
    apply (simp add: b64_char_not_pad)
    done
next
  case 4
  then show ?case by simp
qed

lemma encode_b64_unpadded:
  "encode_b64 (Bytes b) = b64_unpadded b" "encode_b64 (Str s) = b64_unpadded (utf8_encode s)"
  by (simp_all add: rstrip_urlsafe)

lemma decode_encode_b64:
  "b64url_decode (restore_padding (encode_b64 (Bytes b))) = Some b"
  "b64url_decode (restore_padding (encode_b64 (Str s))) = Some (utf8_encode s)"
  by (simp_all add: rstrip_urlsafe restore_unpadded decode_encode)

lemma encode_b64_no_pad: "CHR ''='' \<notin> set (encode_b64 d)"
  by (cases d) (simp_all add: rstrip_urlsafe unpadded_no_pad)

text \<open>
  C10: for every byte string \<open>b\<close>, \<open>encode_b64 b\<close> has no padding character, and
  decoding it after the padding is restored gives \<open>b\<close> back; for a string, the same holds
  of its UTF-8 bytes.
\<close>

theorem encode_b64_roundtrip:
  "CHR ''='' \<notin> set (encode_b64 (Bytes b))
   \<and> b64url_decode (restore_padding (encode_b64 (Bytes b))) = Some b
   \<and> CHR ''='' \<notin> set (encode_b64 (Str s))
   \<and> b64url_decode (restore_padding (encode_b64 (Str s))) = Some (utf8_encode s)"
  by (simp add: rstrip_urlsafe unpadded_no_pad restore_unpadded decode_encode)

declare encode_b64.simps [simp del]

(*PROOFS*)

end
